theory Spec2Isabelle
  imports Main
begin

section \<open>Values, requests and errors\<close>

text \<open>
  The values that travel through \<^verbatim>\<open>notion/endpoints/asynchronous.py\<close>: keyword
  arguments handed in by the caller and JSON handed back by the client. \<open>JNull\<close> is
  Python's \<^verbatim>\<open>None\<close>. Numbers are integers; no operation of the module looks inside a
  number.
\<close>

datatype json =
    JNull
  | JBool bool
  | JInt int
  | JStr string
  | JList "json list"
  | JDict "(string \<times> json) list"

text \<open>A Python \<^verbatim>\<open>dict\<close> with string keys: \<^verbatim>\<open>**kwargs\<close>, and the response of the client.\<close>

type_synonym dict = "string \<rightharpoonup> json"

text \<open>
  The text of an exception. \<open>StrOf v\<close> stands for Python's \<^verbatim>\<open>str(v)\<close>, which
  \<^verbatim>\<open>str.format\<close> puts in place of a field; it is kept symbolic.
\<close>

datatype fragment = Text string | StrOf json

type_synonym message = "fragment list"

datatype py_error =
    ValueError message
  | TypeError message
  | KeyError message
  | ValidationError message
  | TransportOrAPIError message

text \<open>
  The keyword arguments of one call of \<^verbatim>\<open>client.request\<close>. A field is \<open>None\<close> when
  the call does not pass that keyword at all; \<open>Some JNull\<close> is an argument passed as
  \<^verbatim>\<open>None\<close>.
\<close>

record request =
  path :: string
  "method" :: string
  query :: "dict option"
  body :: "dict option"
  auth :: "json option"

text \<open>
  The client collaborator (\<^verbatim>\<open>notion.client.NotionAsyncClient\<close>): given the request
  and the state of the world, it raises or returns a response, and leaves a new state.
  The response is a dict, as the module annotates it (\<^verbatim>\<open>response: dict\<close>); the values
  of its fields are any JSON.
\<close>

type_synonym 'w client = "request \<Rightarrow> 'w \<Rightarrow> (py_error + dict) \<times> 'w"

text \<open>The classes of \<^verbatim>\<open>notion.types\<close> that the module names.\<close>

datatype cls =
    Block
  | Database
  | Page
  | User
  | BotUser
  | PersonUser
  | PaginatedList cls
  | UnionOf cls cls
  | BlockVariant string

section \<open>Python helpers\<close>

text \<open>\<^verbatim>\<open>d.get(key, None)\<close>.\<close>

definition dict_get :: "dict \<Rightarrow> string \<Rightarrow> json" where
  "dict_get d key = (case d key of None \<Rightarrow> JNull | Some v \<Rightarrow> v)"

text \<open>
  \<^verbatim>\<open>template.format(id=v)\<close> for a string \<open>v\<close> and a template whose only braces are
  the field \<^verbatim>\<open>{id}\<close>: one pass from the left, the inserted text is not read again.
\<close>

fun format_id :: "string \<Rightarrow> string \<Rightarrow> string" where
  "format_id [] v = []"
| "format_id (c # cs) v =
     (if take 4 (c # cs) = ''{id}'' then v @ format_id (drop 3 cs) v
      else c # format_id cs v)"

text \<open>
  Modelled from the spec: \<^verbatim>\<open>pick\<close> of \<^verbatim>\<open>notion.helpers\<close>, which is not among the
  sources. The spec calls it whitelist selection: only the recognised fields of the
  caller's input are copied, unknown fields are silently dropped.
\<close>

definition pick :: "dict \<Rightarrow> string list \<Rightarrow> dict" where
  "pick base keys = (\<lambda>k. if k \<in> set keys then base k else None)"

text \<open>
  \<^verbatim>\<open>x not in mapping\<close> for a dict with string keys. Python hashes \<open>x\<close> first: a
  list or a dict is unhashable and the test raises \<^verbatim>\<open>TypeError\<close>. A hashable value that
  is no string equals no key.
\<close>

definition unhashable :: "string \<Rightarrow> py_error" where
  "unhashable tn = TypeError [Text (''unhashable type: '' @ [CHR 0x27] @ tn @ [CHR 0x27])]"

fun not_in :: "json \<Rightarrow> (string \<rightharpoonup> 'c) \<Rightarrow> py_error + bool" where
  "not_in (JStr s) m = Inr (m s = None)"
| "not_in (JList xs) m = Inl (unhashable ''list'')"
| "not_in (JDict kvs) m = Inl (unhashable ''dict'')"
| "not_in v m = Inr True"

text \<open>\<^verbatim>\<open>mapping[x]\<close> for a dict with string keys.\<close>

fun getitem :: "(string \<rightharpoonup> 'c) \<Rightarrow> json \<Rightarrow> py_error + 'c" where
  "getitem m (JStr s) = (case m s of None \<Rightarrow> Inl (KeyError [StrOf (JStr s)]) | Some c \<Rightarrow> Inr c)"
| "getitem m (JList xs) = Inl (unhashable ''list'')"
| "getitem m (JDict kvs) = Inl (unhashable ''dict'')"
| "getitem m v = Inl (KeyError [StrOf v])"

text \<open>
  Modelled from the spec: the members of \<^verbatim>\<open>UserType\<close> of \<^verbatim>\<open>notion.types\<close>, which is
  not among the sources. The spec gives the tags \<^verbatim>\<open>bot\<close> and \<^verbatim>\<open>person\<close>; a response
  value equals a member when it is that string.
\<close>

definition UserType_BOT :: json where
  "UserType_BOT = JStr ''bot''"

definition UserType_PERSON :: json where
  "UserType_PERSON = JStr ''person''"

section \<open>The endpoints\<close>

text \<open>
  \<^verbatim>\<open>class AsyncEndpoint\<close>: an endpoint holds the client it was made with.
\<close>

record 'w AsyncEndpoint =
  client :: "'w client"

definition AsyncEndpoint_init :: "'w client \<Rightarrow> 'w AsyncEndpoint" where
  "AsyncEndpoint_init c = \<lparr>client = c\<rparr>"

text \<open>
  \<^verbatim>\<open>class BlocksAsyncEndpoint\<close>: its constructor makes the nested
  \<^verbatim>\<open>BlocksChildrenAsyncEndpoint\<close> from the same arguments.
\<close>

record 'w BlocksAsyncEndpoint = "'w AsyncEndpoint" +
  children :: "'w AsyncEndpoint"

definition BlocksAsyncEndpoint_init :: "'w client \<Rightarrow> 'w BlocksAsyncEndpoint" where
  "BlocksAsyncEndpoint_init c = \<lparr>client = c, children = AsyncEndpoint_init c\<rparr>"

text \<open>
  \<^verbatim>\<open>k(await self.client.request(...))\<close>: an exception of the client propagates,
  otherwise the rest of the method runs on the response.
\<close>

definition await_then ::
  "(py_error + dict) \<times> 'w \<Rightarrow> (dict \<Rightarrow> py_error + 'o) \<Rightarrow> (py_error + 'o) \<times> 'w" where
  "await_then r k =
     (case r of (Inl e, w') \<Rightarrow> (Inl e, w') | (Inr response, w') \<Rightarrow> (k response, w'))"

text \<open>
  In every method below, \<open>parse_obj c\<close> is \<^verbatim>\<open>c.parse_obj\<close>, the decoder of class
  \<open>c\<close> of \<^verbatim>\<open>notion.types\<close>, and \<open>BLOCK_MAPPING\<close> is the dict of that name; neither
  is among the sources, so both are parameters.
\<close>

subsection \<open>\<^verbatim>\<open>BlocksChildrenAsyncEndpoint\<close>\<close>

definition BlocksChildrenAsyncEndpoint_append ::
  "(string \<rightharpoonup> cls) \<Rightarrow> (cls \<Rightarrow> dict \<Rightarrow> py_error + 'o) \<Rightarrow> ('w, 'z) AsyncEndpoint_scheme
     \<Rightarrow> string \<Rightarrow> dict \<Rightarrow> 'w \<Rightarrow> (py_error + 'o) \<times> 'w" where
  "BlocksChildrenAsyncEndpoint_append BLOCK_MAPPING parse_obj self block_id kwargs w =
     await_then
       (client self
          \<lparr>path = format_id ''blocks/{id}/children'' block_id,
           method = ''PATCH'',
           query = None,
           body = Some (pick kwargs [''children'']),
           auth = None\<rparr> w)
       (\<lambda>response.
          let block_type = dict_get response ''type'' in
          if block_type = JNull
          then Inl (ValueError [Text ''Block type not supported. Check for Notion-SDK updates.''])
          else
            (case not_in block_type BLOCK_MAPPING of
               Inl e \<Rightarrow> Inl e
             | Inr True \<Rightarrow>
                 Inl (ValueError [Text ''Block type not supported. Check for Notion-SDK updates.''])
             | Inr False \<Rightarrow>
                 (case getitem BLOCK_MAPPING block_type of
                    Inl e \<Rightarrow> Inl e
                  | Inr c \<Rightarrow> parse_obj c response)))"

definition BlocksChildrenAsyncEndpoint_list ::
  "(cls \<Rightarrow> dict \<Rightarrow> py_error + 'o) \<Rightarrow> ('w, 'z) AsyncEndpoint_scheme
     \<Rightarrow> string \<Rightarrow> dict \<Rightarrow> 'w \<Rightarrow> (py_error + 'o) \<times> 'w" where
  "BlocksChildrenAsyncEndpoint_list parse_obj self block_id kwargs w =
     await_then
       (client self
          \<lparr>path = format_id ''blocks/{id}/children'' block_id,
           method = ''GET'',
           query = Some (pick kwargs [''start_cursor'', ''page_size'']),
           body = None,
           auth = Some (dict_get kwargs ''auth'')\<rparr> w)
       (parse_obj (PaginatedList Block))"

subsection \<open>\<^verbatim>\<open>DatabasesAsyncEndpoint\<close>\<close>

definition DatabasesAsyncEndpoint_create ::
  "(cls \<Rightarrow> dict \<Rightarrow> py_error + 'o) \<Rightarrow> ('w, 'z) AsyncEndpoint_scheme
     \<Rightarrow> dict \<Rightarrow> 'w \<Rightarrow> (py_error + 'o) \<times> 'w" where
  "DatabasesAsyncEndpoint_create parse_obj self kwargs w =
     await_then
       (client self
          \<lparr>path = ''/databases'',
           method = ''POST'',
           query = Some (pick kwargs [''start_cursor'']),
           body = None,
           auth = Some (dict_get kwargs ''auth'')\<rparr> w)
       (parse_obj Database)"

definition DatabasesAsyncEndpoint_list ::
  "(cls \<Rightarrow> dict \<Rightarrow> py_error + 'o) \<Rightarrow> ('w, 'z) AsyncEndpoint_scheme
     \<Rightarrow> dict \<Rightarrow> 'w \<Rightarrow> (py_error + 'o) \<times> 'w" where
  "DatabasesAsyncEndpoint_list parse_obj self kwargs w =
     await_then
       (client self
          \<lparr>path = ''/databases'',
           method = ''GET'',
           query = Some (pick kwargs [''start_cursor'', ''page_size'']),
           body = None,
           auth = Some (dict_get kwargs ''auth'')\<rparr> w)
       (parse_obj (PaginatedList Database))"

definition DatabasesAsyncEndpoint_query ::
  "(cls \<Rightarrow> dict \<Rightarrow> py_error + 'o) \<Rightarrow> ('w, 'z) AsyncEndpoint_scheme
     \<Rightarrow> string \<Rightarrow> dict \<Rightarrow> 'w \<Rightarrow> (py_error + 'o) \<times> 'w" where
  "DatabasesAsyncEndpoint_query parse_obj self database_id kwargs w =
     await_then
       (client self
          \<lparr>path = format_id ''/databases/{id}/query'' database_id,
           method = ''POST'',
           query = None,
           body = Some (pick kwargs [''filter'', ''sorts'', ''start_cursor'', ''page_size'']),
           auth = Some (dict_get kwargs ''auth'')\<rparr> w)
       (parse_obj (PaginatedList Page))"

definition DatabasesAsyncEndpoint_retrieve ::
  "(cls \<Rightarrow> dict \<Rightarrow> py_error + 'o) \<Rightarrow> ('w, 'z) AsyncEndpoint_scheme
     \<Rightarrow> string \<Rightarrow> dict \<Rightarrow> 'w \<Rightarrow> (py_error + 'o) \<times> 'w" where
  "DatabasesAsyncEndpoint_retrieve parse_obj self database_id kwargs w =
     await_then
       (client self
          \<lparr>path = format_id ''/databases/{id}'' database_id,
           method = ''GET'',
           query = None,
           body = None,
           auth = Some (dict_get kwargs ''auth'')\<rparr> w)
       (parse_obj Database)"

subsection \<open>\<^verbatim>\<open>PagesAsyncEndpoint\<close>\<close>

definition PagesAsyncEndpoint_create ::
  "(cls \<Rightarrow> dict \<Rightarrow> py_error + 'o) \<Rightarrow> ('w, 'z) AsyncEndpoint_scheme
     \<Rightarrow> dict \<Rightarrow> 'w \<Rightarrow> (py_error + 'o) \<times> 'w" where
  "PagesAsyncEndpoint_create parse_obj self kwargs w =
     await_then
       (client self
          \<lparr>path = ''/pages'',
           method = ''POST'',
           query = None,
           body = Some (pick kwargs [''parent'', ''properties'', ''children'']),
           auth = Some (dict_get kwargs ''auth'')\<rparr> w)
       (parse_obj Page)"

definition PagesAsyncEndpoint_retrieve ::
  "(cls \<Rightarrow> dict \<Rightarrow> py_error + 'o) \<Rightarrow> ('w, 'z) AsyncEndpoint_scheme
     \<Rightarrow> string \<Rightarrow> dict \<Rightarrow> 'w \<Rightarrow> (py_error + 'o) \<times> 'w" where
  "PagesAsyncEndpoint_retrieve parse_obj self page_id kwargs w =
     await_then
       (client self
          \<lparr>path = format_id ''pages/{id}'' page_id,
           method = ''GET'',
           query = None,
           body = None,
           auth = Some (dict_get kwargs ''auth'')\<rparr> w)
       (parse_obj Page)"

definition PagesAsyncEndpoint_update ::
  "(cls \<Rightarrow> dict \<Rightarrow> py_error + 'o) \<Rightarrow> ('w, 'z) AsyncEndpoint_scheme
     \<Rightarrow> string \<Rightarrow> dict \<Rightarrow> 'w \<Rightarrow> (py_error + 'o) \<times> 'w" where
  "PagesAsyncEndpoint_update parse_obj self page_id kwargs w =
     await_then
       (client self
          \<lparr>path = format_id ''pages/{id}'' page_id,
           method = ''PATCH'',
           query = None,
           body = Some (pick kwargs [''archived'', ''properties'']),
           auth = Some (dict_get kwargs ''auth'')\<rparr> w)
       (parse_obj Page)"

subsection \<open>\<^verbatim>\<open>UsersAsyncEndpoint\<close>\<close>

definition UsersAsyncEndpoint_list ::
  "(cls \<Rightarrow> dict \<Rightarrow> py_error + 'o) \<Rightarrow> ('w, 'z) AsyncEndpoint_scheme
     \<Rightarrow> dict \<Rightarrow> 'w \<Rightarrow> (py_error + 'o) \<times> 'w" where
  "UsersAsyncEndpoint_list parse_obj self kwargs w =
     await_then
       (client self
          \<lparr>path = ''/users'',
           method = ''GET'',
           query = Some (pick kwargs [''start_cursor'', ''page_size'']),
           body = None,
           auth = Some (dict_get kwargs ''auth'')\<rparr> w)
       (parse_obj (PaginatedList User))"

definition UsersAsyncEndpoint_retrieve ::
  "(cls \<Rightarrow> dict \<Rightarrow> py_error + 'o) \<Rightarrow> ('w, 'z) AsyncEndpoint_scheme
     \<Rightarrow> string \<Rightarrow> dict \<Rightarrow> 'w \<Rightarrow> (py_error + 'o) \<times> 'w" where
  "UsersAsyncEndpoint_retrieve parse_obj self user_id kwargs w =
     await_then
       (client self
          \<lparr>path = format_id ''/users/{id}'' user_id,
           method = ''GET'',
           query = None,
           body = None,
           auth = Some (dict_get kwargs ''auth'')\<rparr> w)
       (\<lambda>response.
          let user_type = dict_get response ''type'' in
          if user_type = UserType_BOT then parse_obj BotUser response
          else if user_type = UserType_PERSON then parse_obj PersonUser response
          else Inl (ValueError [Text ''Could not decode User object with type '', StrOf user_type]))"

subsection \<open>\<^verbatim>\<open>SearchAsyncEndpoint\<close>\<close>

definition SearchAsyncEndpoint_call ::
  "(cls \<Rightarrow> dict \<Rightarrow> py_error + 'o) \<Rightarrow> ('w, 'z) AsyncEndpoint_scheme
     \<Rightarrow> dict \<Rightarrow> 'w \<Rightarrow> (py_error + 'o) \<times> 'w" where
  "SearchAsyncEndpoint_call parse_obj self kwargs w =
     await_then
       (client self
          \<lparr>path = ''/search'',
           method = ''POST'',
           query = None,
           body = Some (pick kwargs [''query'', ''sort'', ''filter'', ''start_cursor'', ''page_size'']),
           auth = Some (dict_get kwargs ''auth'')\<rparr> w)
       (parse_obj (PaginatedList (UnionOf Page Database)))"

section \<open>Observing the calls of the client\<close>

text \<open>
  A client that writes every request it receives to a log, in order, and otherwise
  behaves as the client it wraps.
\<close>

definition recording :: "'w client \<Rightarrow> (request list \<times> 'w) client" where
  "recording c req s =
     (case c req (snd s) of (r, w') \<Rightarrow> (r, (fst s @ [req], w')))"

text \<open>
  The public methods of the module, each with its positional argument, and the call of
  one of them on endpoints made with the client \<open>c\<close>. The module itself has no such
  dispatcher: \<open>invoke\<close> only lets a statement range over all its methods.
\<close>

datatype endpoint_call =
    Blocks_children_append string
  | Blocks_children_list string
  | Databases_create
  | Databases_list
  | Databases_query string
  | Databases_retrieve string
  | Pages_create
  | Pages_retrieve string
  | Pages_update string
  | Users_list
  | Users_retrieve string
  | Search

fun invoke ::
  "(string \<rightharpoonup> cls) \<Rightarrow> (cls \<Rightarrow> dict \<Rightarrow> py_error + 'o) \<Rightarrow> 'w client
     \<Rightarrow> endpoint_call \<Rightarrow> dict \<Rightarrow> 'w \<Rightarrow> (py_error + 'o) \<times> 'w" where
  "invoke BM P c (Blocks_children_append block_id) kwargs w =
     BlocksChildrenAsyncEndpoint_append BM P (children (BlocksAsyncEndpoint_init c)) block_id kwargs w"
| "invoke BM P c (Blocks_children_list block_id) kwargs w =
     BlocksChildrenAsyncEndpoint_list P (children (BlocksAsyncEndpoint_init c)) block_id kwargs w"
| "invoke BM P c Databases_create kwargs w =
     DatabasesAsyncEndpoint_create P (AsyncEndpoint_init c) kwargs w"
| "invoke BM P c Databases_list kwargs w =
     DatabasesAsyncEndpoint_list P (AsyncEndpoint_init c) kwargs w"
| "invoke BM P c (Databases_query database_id) kwargs w =
     DatabasesAsyncEndpoint_query P (AsyncEndpoint_init c) database_id kwargs w"
| "invoke BM P c (Databases_retrieve database_id) kwargs w =
     DatabasesAsyncEndpoint_retrieve P (AsyncEndpoint_init c) database_id kwargs w"
| "invoke BM P c Pages_create kwargs w =
     PagesAsyncEndpoint_create P (AsyncEndpoint_init c) kwargs w"
| "invoke BM P c (Pages_retrieve page_id) kwargs w =
     PagesAsyncEndpoint_retrieve P (AsyncEndpoint_init c) page_id kwargs w"
| "invoke BM P c (Pages_update page_id) kwargs w =
     PagesAsyncEndpoint_update P (AsyncEndpoint_init c) page_id kwargs w"
| "invoke BM P c Users_list kwargs w =
     UsersAsyncEndpoint_list P (AsyncEndpoint_init c) kwargs w"
| "invoke BM P c (Users_retrieve user_id) kwargs w =
     UsersAsyncEndpoint_retrieve P (AsyncEndpoint_init c) user_id kwargs w"
| "invoke BM P c Search kwargs w =
     SearchAsyncEndpoint_call P (AsyncEndpoint_init c) kwargs w"

text \<open>The requests a call makes, in order, from the state \<open>w\<close> of the world.\<close>

definition requests_of ::
  "(string \<rightharpoonup> cls) \<Rightarrow> (cls \<Rightarrow> dict \<Rightarrow> py_error + 'o) \<Rightarrow> 'w client
     \<Rightarrow> endpoint_call \<Rightarrow> dict \<Rightarrow> 'w \<Rightarrow> request list" where
  "requests_of BM P c call kwargs w = fst (snd (invoke BM P (recording c) call kwargs ([], w)))"

section \<open>What an error carries\<close>

text \<open>
  The message of an exception, and whether it carries a value: whether \<^verbatim>\<open>str\<close> of
  the value was formatted into the message.
\<close>

fun error_message :: "py_error \<Rightarrow> message" where
  "error_message (ValueError m) = m"
| "error_message (TypeError m) = m"
| "error_message (KeyError m) = m"
| "error_message (ValidationError m) = m"
| "error_message (TransportOrAPIError m) = m"

definition carries :: "py_error \<Rightarrow> json \<Rightarrow> bool" where
  "carries e v = (StrOf v \<in> set (error_message e))"

section \<open>Decoding, as the spec describes it\<close>

text \<open>
  Modelled from the spec: \<^verbatim>\<open>parse_obj\<close> of \<^verbatim>\<open>PaginatedList[T]\<close> and of
  \<^verbatim>\<open>Union[Page, Database]\<close> of \<^verbatim>\<open>notion.types\<close>, which is not among the sources.
  The spec describes a paginated list as a wrapper of the decoded items, in order, with
  the next cursor and the has-more flag, and says that search decodes each result item
  as either Page or Database based on its own discriminator. Which field and which tags
  that discriminator has the spec does not say: \<open>discr\<close> reads it off an item. The
  decoders of the other classes are the parameter \<open>decode\<close>.
\<close>

datatype 'a decoded =
    Instance cls 'a
  | Listing "'a decoded list" json json

fun parse_all :: "('x \<Rightarrow> py_error + 'y) \<Rightarrow> 'x list \<Rightarrow> py_error + 'y list" where
  "parse_all f [] = Inr []"
| "parse_all f (x # xs) =
     (case f x of
        Inl e \<Rightarrow> Inl e
      | Inr y \<Rightarrow> (case parse_all f xs of Inl e \<Rightarrow> Inl e | Inr ys \<Rightarrow> Inr (y # ys)))"

fun parse_obj_spec ::
  "(dict \<Rightarrow> cls option) \<Rightarrow> (cls \<Rightarrow> dict \<Rightarrow> py_error + 'a) \<Rightarrow> cls \<Rightarrow> dict
     \<Rightarrow> py_error + 'a decoded" where
  "parse_obj_spec discr decode (PaginatedList t) response =
     (case response ''results'' of
        Some (JList items) \<Rightarrow>
          (case parse_all
                  (\<lambda>item. case item of
                       JDict kvs \<Rightarrow> parse_obj_spec discr decode t (map_of kvs)
                     | _ \<Rightarrow> Inl (ValidationError [Text ''value is not a valid dict'']))
                  items of
             Inl e \<Rightarrow> Inl e
           | Inr xs \<Rightarrow>
               Inr (Listing xs (dict_get response ''next_cursor'') (dict_get response ''has_more'')))
      | _ \<Rightarrow> Inl (ValidationError [Text ''results'']))"
| "parse_obj_spec discr decode (UnionOf a b) response =
     (case discr response of
        None \<Rightarrow> Inl (ValidationError [Text ''no discriminator''])
      | Some t \<Rightarrow>
          if t = a then parse_obj_spec discr decode a response
          else if t = b then parse_obj_spec discr decode b response
          else Inl (ValidationError [Text ''unknown discriminator'']))"
| "parse_obj_spec discr decode t response = map_sum id (Instance t) (decode t response)"

section \<open>Example inputs\<close>

text \<open>
  A client that answers every request with the response \<open>r\<close> and leaves the world
  as it is; a decoder that accepts every payload and returns the class it was asked
  for; a block mapping with one entry.
\<close>

definition answering :: "dict \<Rightarrow> 'w client" where
  "answering r req w = (Inr r, w)"

definition accepting :: "cls \<Rightarrow> dict \<Rightarrow> py_error + cls" where
  "accepting k r = Inr k"

definition paragraph_only :: "string \<rightharpoonup> cls" where
  "paragraph_only = [''paragraph'' \<mapsto> BlockVariant ''ParagraphBlock'']"

text \<open>A discriminator for search results: the field \<^verbatim>\<open>object\<close> of the item.\<close>

definition by_object :: "dict \<Rightarrow> cls option" where
  "by_object item =
     (if item ''object'' = Some (JStr ''page'') then Some Page
      else if item ''object'' = Some (JStr ''database'') then Some Database
      else None)"

section \<open>Basic facts\<close>

lemma pick_restrict: "pick kwargs ks = kwargs |` set ks"
  by (rule ext) (simp add: pick_def restrict_map_def)

lemma pick_idem: "pick (pick kwargs ks) ks = pick kwargs ks"
  by (rule ext) (simp add: pick_def)

lemma pick_upd_other: "k \<notin> set ks \<Longrightarrow> pick (kwargs(k \<mapsto> v)) ks = pick kwargs ks"
  by (auto simp: pick_def fun_eq_iff)

lemma dict_get_upd_other: "k \<noteq> key \<Longrightarrow> dict_get (kwargs(k \<mapsto> v)) key = dict_get kwargs key"
  by (simp add: dict_get_def)

lemma log_await_then: "fst (snd (await_then (recording c req (l, w)) k)) = l @ [req]"
  by (simp add: await_then_def recording_def split: prod.split sum.split)

lemma world_await_then: "snd (await_then r k) = snd r"
  by (simp add: await_then_def split: prod.split sum.split)

lemma log_recording: "fst (snd (recording c req (l, w))) = l @ [req]"
  by (simp add: recording_def split: prod.split)

lemmas endpoint_defs =
  BlocksChildrenAsyncEndpoint_append_def BlocksChildrenAsyncEndpoint_list_def
  DatabasesAsyncEndpoint_create_def DatabasesAsyncEndpoint_list_def
  DatabasesAsyncEndpoint_query_def DatabasesAsyncEndpoint_retrieve_def
  PagesAsyncEndpoint_create_def PagesAsyncEndpoint_retrieve_def PagesAsyncEndpoint_update_def
  UsersAsyncEndpoint_list_def UsersAsyncEndpoint_retrieve_def SearchAsyncEndpoint_call_def
  AsyncEndpoint_init_def BlocksAsyncEndpoint_init_def

text \<open>A successful run of \<open>parse_all\<close> decodes every element, in order.\<close>

lemma parse_all_Inr:
  "parse_all f xs = Inr ys \<Longrightarrow>
     length ys = length xs \<and> (\<forall>i<length xs. f (xs ! i) = Inr (ys ! i))"
proof (induction xs arbitrary: ys)
  case Nil
  then show ?case by simp
next
  case (Cons x xs)
  from Cons.prems obtain y ys' where fx: "f x = Inr y" and rest: "parse_all f xs = Inr ys'"
    and ys: "ys = y # ys'"
    by (auto split: sum.splits)
  from Cons.IH [OF rest] have len: "length ys' = length xs"
    and nth: "\<forall>i<length xs. f (xs ! i) = Inr (ys' ! i)" by simp_all
  show ?case
  proof (intro conjI allI impI)
    show "length ys = length (x # xs)" using len ys by simp
  next
    fix i assume "i < length (x # xs)"
    then show "f ((x # xs) ! i) = Inr (ys ! i)"
      using fx nth ys by (cases i) simp_all
  qed
qed

text \<open>An item that decodes as \<^verbatim>\<open>Union[Page, Database]\<close> is a dict whose discriminator
  names one of the two, decoded by the decoder of that one.\<close>

lemma parse_item_Page_or_Database:
  assumes "(case item of
              JDict kvs \<Rightarrow> parse_obj_spec discr decode (UnionOf Page Database) (map_of kvs)
            | _ \<Rightarrow> Inl (ValidationError [Text ''value is not a valid dict''])) = Inr x"
  shows "\<exists>kvs a. item = JDict kvs
           \<and> ((discr (map_of kvs) = Some Page \<and> decode Page (map_of kvs) = Inr a
                 \<and> x = Instance Page a)
            \<or> (discr (map_of kvs) = Some Database \<and> decode Database (map_of kvs) = Inr a
                 \<and> x = Instance Database a))"
proof (cases item)
  case (JDict kvs)
  with assms have p: "parse_obj_spec discr decode (UnionOf Page Database) (map_of kvs) = Inr x"
    by simp
  then obtain t where t: "discr (map_of kvs) = Some t"
    by (cases "discr (map_of kvs)") simp_all
  show ?thesis
  proof (cases "t = Page")
    case True
    with p t obtain a where "decode Page (map_of kvs) = Inr a" "x = Instance Page a"
      by (cases "decode Page (map_of kvs)") simp_all
    with JDict t True show ?thesis by blast
  next
    case False
    with p t have d: "t = Database" by (simp split: if_splits)
    with p t obtain a where "decode Database (map_of kvs) = Inr a" "x = Instance Database a"
      by (cases "decode Database (map_of kvs)") simp_all
    with JDict t d show ?thesis by blast
  qed
qed (use assms in simp_all)

text \<open>\<^verbatim>\<open>append\<close> on a response whose type is a key of the mapping: the decoder of the
  mapped class runs on the response.\<close>

lemma append_decodes_known_type:
  assumes "c \<lparr>path = ''blocks/'' @ block_id @ ''/children'', method = ''PATCH'', query = None,
              body = Some (kwargs |` {''children''}), auth = None\<rparr> w = (Inr response, w')"
    and "response ''type'' = Some (JStr s)" and "BM s = Some k"
  shows "invoke BM P c (Blocks_children_append block_id) kwargs w = (P k response, w')"
  using assms by (simp add: endpoint_defs await_then_def dict_get_def pick_restrict)

section \<open>The request of \<^verbatim>\<open>Databases.query\<close>\<close>

text \<open>
  C1. For every database id and every kwargs, \<^verbatim>\<open>DatabasesAsyncEndpoint.query\<close> makes
  exactly one request: a POST to \<^verbatim>\<open>/databases/\<close>, the id, \<^verbatim>\<open>/query\<close>, whose body is
  kwargs restricted to the keys filter, sorts, start_cursor and page_size (the keys of
  these four that kwargs has, with the values of kwargs, and no other key). It passes no
  query, and the auth of kwargs.
\<close>

theorem Databases_query_request:
  "requests_of BM P c (Databases_query database_id) kwargs w =
     [\<lparr>path = ''/databases/'' @ database_id @ ''/query'',
       method = ''POST'',
       query = None,
       body = Some (kwargs |` {''filter'', ''sorts'', ''start_cursor'', ''page_size''}),
       auth = Some (dict_get kwargs ''auth'')\<rparr>]"
  by (simp add: requests_of_def endpoint_defs log_await_then pick_restrict)

theorem Databases_query_request_witness:
  "\<exists>b. requests_of Map.empty accepting (answering Map.empty)
          (Databases_query ''d1'') [''sorts'' \<mapsto> JList [], ''color'' \<mapsto> JStr ''red''] (0::nat) =
        [\<lparr>path = ''/databases/d1/query'', method = ''POST'', query = None,
          body = Some b, auth = Some JNull\<rparr>]
      \<and> b ''sorts'' = Some (JList []) \<and> b ''color'' = None \<and> b ''filter'' = None"
  using Databases_query_request [of Map.empty accepting "answering Map.empty"
      "''d1''" "[''sorts'' \<mapsto> JList [], ''color'' \<mapsto> JStr ''red'']" "0::nat"]
  by (simp add: dict_get_def restrict_map_def)

section \<open>Decoding a user\<close>

text \<open>
  C2. Let \<open>response\<close> be what the client returns to \<^verbatim>\<open>UsersAsyncEndpoint.retrieve\<close>.
  If its field type is \<^verbatim>\<open>bot\<close>, the call returns what the decoder of BotUser makes of
  the response; if it is \<^verbatim>\<open>person\<close>, what the decoder of PersonUser makes of it; for
  every other value, and when the field is missing, the call fails with a ValueError.
\<close>

theorem Users_retrieve_decode:
  assumes "c \<lparr>path = ''/users/'' @ user_id, method = ''GET'', query = None, body = None,
              auth = Some (dict_get kwargs ''auth'')\<rparr> w = (Inr response, w')"
  shows "(response ''type'' = Some (JStr ''bot'') \<longrightarrow>
            invoke BM P c (Users_retrieve user_id) kwargs w = (P BotUser response, w'))
       \<and> (response ''type'' = Some (JStr ''person'') \<longrightarrow>
            invoke BM P c (Users_retrieve user_id) kwargs w = (P PersonUser response, w'))
       \<and> (response ''type'' \<noteq> Some (JStr ''bot'') \<and> response ''type'' \<noteq> Some (JStr ''person'') \<longrightarrow>
            (\<exists>m. invoke BM P c (Users_retrieve user_id) kwargs w = (Inl (ValueError m), w')))"
  using assms
  by (auto simp add: endpoint_defs await_then_def dict_get_def UserType_BOT_def UserType_PERSON_def
      split: option.splits)

theorem Users_retrieve_decode_witness:
  "invoke Map.empty accepting (answering [''type'' \<mapsto> JStr ''bot''])
      (Users_retrieve ''u1'') Map.empty (0::nat) = (Inr BotUser, 0)
   \<and> invoke Map.empty accepting (answering [''type'' \<mapsto> JStr ''person''])
      (Users_retrieve ''u1'') Map.empty (0::nat) = (Inr PersonUser, 0)
   \<and> (\<exists>m. invoke Map.empty accepting (answering [''type'' \<mapsto> JStr ''robot''])
      (Users_retrieve ''u1'') Map.empty (0::nat) = (Inl (ValueError m), 0))
   \<and> (\<exists>m. invoke Map.empty accepting (answering [''id'' \<mapsto> JStr ''u1''])
      (Users_retrieve ''u1'') Map.empty (0::nat) = (Inl (ValueError m), 0))"
  using
    Users_retrieve_decode [of "answering [''type'' \<mapsto> JStr ''bot'']" "''u1''" Map.empty "0::nat"
      "[''type'' \<mapsto> JStr ''bot'']" 0 Map.empty accepting]
    Users_retrieve_decode [of "answering [''type'' \<mapsto> JStr ''person'']" "''u1''" Map.empty "0::nat"
      "[''type'' \<mapsto> JStr ''person'']" 0 Map.empty accepting]
    Users_retrieve_decode [of "answering [''type'' \<mapsto> JStr ''robot'']" "''u1''" Map.empty "0::nat"
      "[''type'' \<mapsto> JStr ''robot'']" 0 Map.empty accepting]
    Users_retrieve_decode [of "answering [''id'' \<mapsto> JStr ''u1'']" "''u1''" Map.empty "0::nat"
      "[''id'' \<mapsto> JStr ''u1'']" 0 Map.empty accepting]
  by (simp add: answering_def accepting_def)

section \<open>Decoding a block\<close>

text \<open>
  C3. The claim: when the type of the response is missing or is no key of the block
  mapping, \<^verbatim>\<open>BlocksChildrenAsyncEndpoint.append\<close> fails with the decode error and with
  nothing else. The code at a response whose type is a JSON array: the test
  \<^verbatim>\<open>block_type not in BLOCK_MAPPING\<close> hashes the list, and the call fails with
  \<^verbatim>\<open>TypeError\<close>, whatever the mapping, the decoders, the block id and kwargs are.
\<close>

theorem append_unhashable_type:
  "invoke BM P (answering [''type'' \<mapsto> JList [JStr ''paragraph'']])
      (Blocks_children_append block_id) kwargs w =
     (Inl (TypeError [Text (''unhashable type: '' @ [CHR 0x27] @ ''list'' @ [CHR 0x27])]), w)"
  by (simp add: endpoint_defs await_then_def answering_def dict_get_def unhashable_def)

section \<open>What the decode errors carry\<close>

text \<open>
  C4, as claimed: in \<^verbatim>\<open>append\<close> too, the decode error carries the offending tag. It
  does not: for the unknown type \<^verbatim>\<open>hologram\<close> the error is the fixed text.
\<close>

theorem append_error_without_tag:
  "invoke paragraph_only accepting (answering [''type'' \<mapsto> JStr ''hologram''])
      (Blocks_children_append ''b1'') Map.empty (0::nat) =
     (Inl (ValueError [Text ''Block type not supported. Check for Notion-SDK updates.'']), 0)
   \<and> \<not> carries (ValueError [Text ''Block type not supported. Check for Notion-SDK updates.''])
          (JStr ''hologram'')"
  by (simp add: endpoint_defs await_then_def answering_def dict_get_def paragraph_only_def
      carries_def)

text \<open>
  C4, amended. When \<^verbatim>\<open>UsersAsyncEndpoint.retrieve\<close> fails because the type of the
  response is missing or is neither \<^verbatim>\<open>bot\<close> nor \<^verbatim>\<open>person\<close>, the ValueError has the
  text \<^verbatim>\<open>Could not decode User object with type\<close> followed by \<^verbatim>\<open>str\<close> of the type
  (of \<^verbatim>\<open>None\<close> when the field is missing): it carries the tag. When
  \<^verbatim>\<open>BlocksChildrenAsyncEndpoint.append\<close> fails because the type is missing, null, or a
  string, boolean or number that is no key of the mapping, the ValueError has the fixed
  text \<^verbatim>\<open>Block type not supported. Check for Notion-SDK updates.\<close>
\<close>

theorem decode_error_context:
  "(c \<lparr>path = ''/users/'' @ user_id, method = ''GET'', query = None, body = None,
        auth = Some (dict_get kwargs ''auth'')\<rparr> w = (Inr response, w')
      \<and> response ''type'' \<noteq> Some (JStr ''bot'') \<and> response ''type'' \<noteq> Some (JStr ''person'') \<longrightarrow>
    invoke BM P c (Users_retrieve user_id) kwargs w =
      (Inl (ValueError [Text ''Could not decode User object with type '',
                        StrOf (dict_get response ''type'')]), w')
    \<and> carries (ValueError [Text ''Could not decode User object with type '',
                          StrOf (dict_get response ''type'')])
        (dict_get response ''type''))
   \<and> (c \<lparr>path = ''blocks/'' @ block_id @ ''/children'', method = ''PATCH'', query = None,
          body = Some (kwargs |` {''children''}), auth = None\<rparr> w = (Inr response, w')
      \<and> (response ''type'' = None \<or> response ''type'' = Some JNull
          \<or> (\<exists>s. response ''type'' = Some (JStr s) \<and> BM s = None)
          \<or> (\<exists>b. response ''type'' = Some (JBool b))
          \<or> (\<exists>n. response ''type'' = Some (JInt n))) \<longrightarrow>
    invoke BM P c (Blocks_children_append block_id) kwargs w =
      (Inl (ValueError [Text ''Block type not supported. Check for Notion-SDK updates.'']), w'))"
proof (intro conjI impI)
  assume "c \<lparr>path = ''/users/'' @ user_id, method = ''GET'', query = None, body = None,
        auth = Some (dict_get kwargs ''auth'')\<rparr> w = (Inr response, w')
      \<and> response ''type'' \<noteq> Some (JStr ''bot'') \<and> response ''type'' \<noteq> Some (JStr ''person'')"
  then show "invoke BM P c (Users_retrieve user_id) kwargs w =
      (Inl (ValueError [Text ''Could not decode User object with type '',
                        StrOf (dict_get response ''type'')]), w')"
    by (auto simp add: endpoint_defs await_then_def dict_get_def UserType_BOT_def
        UserType_PERSON_def split: option.splits)
  show "carries (ValueError [Text ''Could not decode User object with type '',
                          StrOf (dict_get response ''type'')]) (dict_get response ''type'')"
    by (simp add: carries_def)
next
  assume "c \<lparr>path = ''blocks/'' @ block_id @ ''/children'', method = ''PATCH'', query = None,
          body = Some (kwargs |` {''children''}), auth = None\<rparr> w = (Inr response, w')
      \<and> (response ''type'' = None \<or> response ''type'' = Some JNull
          \<or> (\<exists>s. response ''type'' = Some (JStr s) \<and> BM s = None)
          \<or> (\<exists>b. response ''type'' = Some (JBool b))
          \<or> (\<exists>n. response ''type'' = Some (JInt n)))"
  then show "invoke BM P c (Blocks_children_append block_id) kwargs w =
      (Inl (ValueError [Text ''Block type not supported. Check for Notion-SDK updates.'']), w')"
    by (auto simp add: endpoint_defs await_then_def dict_get_def pick_restrict)
qed

theorem decode_error_context_witness:
  "invoke paragraph_only accepting (answering [''type'' \<mapsto> JStr ''robot''])
      (Users_retrieve ''u1'') Map.empty (0::nat) =
      (Inl (ValueError [Text ''Could not decode User object with type '', StrOf (JStr ''robot'')]), 0)
   \<and> carries (ValueError [Text ''Could not decode User object with type '', StrOf (JStr ''robot'')])
        (JStr ''robot'')
   \<and> invoke paragraph_only accepting (answering Map.empty)
      (Users_retrieve ''u1'') Map.empty (0::nat) =
      (Inl (ValueError [Text ''Could not decode User object with type '', StrOf JNull]), 0)
   \<and> invoke paragraph_only accepting (answering [''type'' \<mapsto> JStr ''hologram''])
      (Blocks_children_append ''b1'') Map.empty (0::nat) =
      (Inl (ValueError [Text ''Block type not supported. Check for Notion-SDK updates.'']), 0)"
  using
    decode_error_context [of "answering [''type'' \<mapsto> JStr ''robot'']" "''u1''" Map.empty "0::nat"
      "[''type'' \<mapsto> JStr ''robot'']" 0 paragraph_only accepting "''b1''"]
    decode_error_context [of "answering Map.empty" "''u1''" Map.empty "0::nat"
      "Map.empty" 0 paragraph_only accepting "''b1''"]
    decode_error_context [of "answering [''type'' \<mapsto> JStr ''hologram'']" "''u1''" Map.empty "0::nat"
      "[''type'' \<mapsto> JStr ''hologram'']" 0 paragraph_only accepting "''b1''"]
  by (simp add: answering_def paragraph_only_def dict_get_def)

section \<open>Whitelist filtering\<close>

text \<open>
  C5. For every endpoint method and every kwargs: the query and the body of the request,
  where the method passes one, is kwargs restricted to the keys the method names (so
  it has no other key); a key outside them, other than auth, changes neither the request
  nor the outcome of the call, and raises nothing; and filtering what was already
  filtered gives the same mapping.
\<close>

theorem whitelist_filtering:
  "let allowed =
     (case call of
        Blocks_children_append block_id \<Rightarrow> [''children'']
      | Blocks_children_list block_id \<Rightarrow> [''start_cursor'', ''page_size'']
      | Databases_create \<Rightarrow> [''start_cursor'']
      | Databases_list \<Rightarrow> [''start_cursor'', ''page_size'']
      | Databases_query database_id \<Rightarrow> [''filter'', ''sorts'', ''start_cursor'', ''page_size'']
      | Databases_retrieve database_id \<Rightarrow> []
      | Pages_create \<Rightarrow> [''parent'', ''properties'', ''children'']
      | Pages_retrieve page_id \<Rightarrow> []
      | Pages_update page_id \<Rightarrow> [''archived'', ''properties'']
      | Users_list \<Rightarrow> [''start_cursor'', ''page_size'']
      | Users_retrieve user_id \<Rightarrow> []
      | Search \<Rightarrow> [''query'', ''sort'', ''filter'', ''start_cursor'', ''page_size''])
   in (\<exists>req. requests_of BM P c call kwargs w = [req]
         \<and> (\<forall>m. query req = Some m \<or> body req = Some m \<longrightarrow> m = kwargs |` set allowed))
    \<and> (\<forall>k v. k \<notin> set allowed \<and> k \<noteq> ''auth'' \<longrightarrow>
          invoke BM P c call (kwargs(k \<mapsto> v)) w = invoke BM P c call kwargs w)
    \<and> pick (pick kwargs allowed) allowed = pick kwargs allowed"
proof (cases call)
qed (simp_all add: pick_idem requests_of_def endpoint_defs log_await_then
       pick_upd_other dict_get_upd_other, simp_all add: pick_restrict)

theorem whitelist_filtering_witness:
  "requests_of Map.empty accepting (answering Map.empty) (Pages_update ''p1'')
      [''archived'' \<mapsto> JBool True, ''color'' \<mapsto> JStr ''red''] (0::nat) =
     [\<lparr>path = ''pages/p1'', method = ''PATCH'', query = None,
       body = Some ([''archived'' \<mapsto> JBool True, ''color'' \<mapsto> JStr ''red'']
                      |` {''archived'', ''properties''}),
       auth = Some JNull\<rparr>]
   \<and> ([''archived'' \<mapsto> JBool True, ''color'' \<mapsto> JStr ''red'']
         |` {''archived'', ''properties''}) ''color'' = None
   \<and> invoke Map.empty accepting (answering Map.empty) (Pages_update ''p1'')
        [''archived'' \<mapsto> JBool True, ''color'' \<mapsto> JStr ''red''] (0::nat) =
      invoke Map.empty accepting (answering Map.empty) (Pages_update ''p1'')
        [''archived'' \<mapsto> JBool True] (0::nat)"
  using whitelist_filtering [of "Pages_update ''p1''" Map.empty accepting "answering Map.empty"
      "[''archived'' \<mapsto> JBool True]" "0::nat"]
    whitelist_filtering [of "Pages_update ''p1''" Map.empty accepting "answering Map.empty"
      "[''archived'' \<mapsto> JBool True, ''color'' \<mapsto> JStr ''red'']" "0::nat"]
  by (simp add: requests_of_def endpoint_defs log_await_then pick_restrict dict_get_def)

section \<open>One request per call\<close>

text \<open>
  C6. Every call of a public endpoint method makes exactly one request to the client,
  whatever the client answers: an exception of the client is not retried, and no
  response leads to a second request. The world after the call is the world that one
  request left.
\<close>

theorem one_request_per_call:
  "\<exists>req. requests_of BM P c call kwargs w = [req]
     \<and> length (requests_of BM P c call kwargs w) = 1
     \<and> snd (invoke BM P c call kwargs w) = snd (c req w)"
  by (cases call)
    (simp_all add: requests_of_def endpoint_defs world_await_then log_recording)

section \<open>Methods and paths\<close>

text \<open>
  C7. The request of every endpoint method has the HTTP method GET, POST or PATCH, and
  its path is a fixed literal in which only the identifier varies.
\<close>

theorem request_method_and_path:
  "\<exists>req. requests_of BM P c call kwargs w = [req]
     \<and> method req \<in> {''GET'', ''POST'', ''PATCH''}
     \<and> path req =
        (case call of
           Blocks_children_append block_id \<Rightarrow> ''blocks/'' @ block_id @ ''/children''
         | Blocks_children_list block_id \<Rightarrow> ''blocks/'' @ block_id @ ''/children''
         | Databases_create \<Rightarrow> ''/databases''
         | Databases_list \<Rightarrow> ''/databases''
         | Databases_query database_id \<Rightarrow> ''/databases/'' @ database_id @ ''/query''
         | Databases_retrieve database_id \<Rightarrow> ''/databases/'' @ database_id
         | Pages_create \<Rightarrow> ''/pages''
         | Pages_retrieve page_id \<Rightarrow> ''pages/'' @ page_id
         | Pages_update page_id \<Rightarrow> ''pages/'' @ page_id
         | Users_list \<Rightarrow> ''/users''
         | Users_retrieve user_id \<Rightarrow> ''/users/'' @ user_id
         | Search \<Rightarrow> ''/search'')"
  by (cases call) (simp_all add: requests_of_def endpoint_defs log_await_then)

section \<open>Search\<close>

text \<open>
  C8. For every kwargs, the search endpoint makes one request, a POST to \<^verbatim>\<open>/search\<close>
  whose body is kwargs restricted to query, sort, filter, start_cursor and page_size,
  and returns what the decoder of \<^verbatim>\<open>PaginatedList[Union[Page, Database]]\<close> makes of the
  response. With the decoder as the spec describes it, a decoded response is a listing
  of as many items as the results of the response, with its cursor and flag, and each
  item is the Page or the Database that the discriminator of that result names.
\<close>

theorem Search_request_and_decode:
  "requests_of BM P c Search kwargs w =
     [\<lparr>path = ''/search'', method = ''POST'', query = None,
          body = Some (kwargs |` {''query'', ''sort'', ''filter'', ''start_cursor'', ''page_size''}),
          auth = Some (dict_get kwargs ''auth'')\<rparr>]
   \<and> (c \<lparr>path = ''/search'', method = ''POST'', query = None,
          body = Some (kwargs |` {''query'', ''sort'', ''filter'', ''start_cursor'', ''page_size''}),
          auth = Some (dict_get kwargs ''auth'')\<rparr> w = (Inr response, w') \<longrightarrow>
       invoke BM P c Search kwargs w = (P (PaginatedList (UnionOf Page Database)) response, w'))
   \<and> (parse_obj_spec discr decode (PaginatedList (UnionOf Page Database)) response = Inr v \<longrightarrow>
       (\<exists>items xs. response ''results'' = Some (JList items)
          \<and> v = Listing xs (dict_get response ''next_cursor'') (dict_get response ''has_more'')
          \<and> length xs = length items
          \<and> (\<forall>i<length items. \<exists>kvs a. items ! i = JDict kvs
                \<and> ((discr (map_of kvs) = Some Page \<and> decode Page (map_of kvs) = Inr a
                      \<and> xs ! i = Instance Page a)
                 \<or> (discr (map_of kvs) = Some Database \<and> decode Database (map_of kvs) = Inr a
                      \<and> xs ! i = Instance Database a)))))"
proof (intro conjI impI)
  show "requests_of BM P c Search kwargs w =
     [\<lparr>path = ''/search'', method = ''POST'', query = None,
          body = Some (kwargs |` {''query'', ''sort'', ''filter'', ''start_cursor'', ''page_size''}),
          auth = Some (dict_get kwargs ''auth'')\<rparr>]"
    by (simp add: requests_of_def endpoint_defs log_await_then pick_restrict)
next
  assume "c \<lparr>path = ''/search'', method = ''POST'', query = None,
          body = Some (kwargs |` {''query'', ''sort'', ''filter'', ''start_cursor'', ''page_size''}),
          auth = Some (dict_get kwargs ''auth'')\<rparr> w = (Inr response, w')"
  then show "invoke BM P c Search kwargs w =
      (P (PaginatedList (UnionOf Page Database)) response, w')"
    by (simp add: endpoint_defs await_then_def pick_restrict)
next
  let ?f = "\<lambda>item. case item of
       JDict kvs \<Rightarrow> parse_obj_spec discr decode (UnionOf Page Database) (map_of kvs)
     | _ \<Rightarrow> Inl (ValidationError [Text ''value is not a valid dict''])"
  assume ok: "parse_obj_spec discr decode (PaginatedList (UnionOf Page Database)) response = Inr v"
  then obtain items where items: "response ''results'' = Some (JList items)"
    by (auto split: option.splits json.splits)
  with ok obtain xs where xs: "parse_all ?f items = Inr xs"
    and v: "v = Listing xs (dict_get response ''next_cursor'') (dict_get response ''has_more'')"
    by (auto simp del: parse_obj_spec.simps(2) split: sum.splits)
  from parse_all_Inr [OF xs] have len: "length xs = length items"
    and nth: "\<forall>i<length items. ?f (items ! i) = Inr (xs ! i)" by simp_all
  have "\<forall>i<length items. \<exists>kvs a. items ! i = JDict kvs
                \<and> ((discr (map_of kvs) = Some Page \<and> decode Page (map_of kvs) = Inr a
                      \<and> xs ! i = Instance Page a)
                 \<or> (discr (map_of kvs) = Some Database \<and> decode Database (map_of kvs) = Inr a
                      \<and> xs ! i = Instance Database a))"
    using nth parse_item_Page_or_Database [where discr = discr and decode = decode] by blast
  with items v len
  show "\<exists>items xs. response ''results'' = Some (JList items)
          \<and> v = Listing xs (dict_get response ''next_cursor'') (dict_get response ''has_more'')
          \<and> length xs = length items
          \<and> (\<forall>i<length items. \<exists>kvs a. items ! i = JDict kvs
                \<and> ((discr (map_of kvs) = Some Page \<and> decode Page (map_of kvs) = Inr a
                      \<and> xs ! i = Instance Page a)
                 \<or> (discr (map_of kvs) = Some Database \<and> decode Database (map_of kvs) = Inr a
                      \<and> xs ! i = Instance Database a)))"
    by blast
qed

theorem Search_request_and_decode_witness:
  "requests_of Map.empty (parse_obj_spec by_object accepting)
     (answering [''results'' \<mapsto> JList [JDict [(''object'', JStr ''page'')],
                                        JDict [(''object'', JStr ''database'')]],
                 ''next_cursor'' \<mapsto> JStr ''c2'', ''has_more'' \<mapsto> JBool True])
     Search [''query'' \<mapsto> JStr ''plan''] (0::nat) =
     [\<lparr>path = ''/search'', method = ''POST'', query = None,
       body = Some ([''query'' \<mapsto> JStr ''plan'']
                      |` {''query'', ''sort'', ''filter'', ''start_cursor'', ''page_size''}),
       auth = Some (dict_get [''query'' \<mapsto> JStr ''plan''] ''auth'')\<rparr>]
   \<and> invoke Map.empty (parse_obj_spec by_object accepting)
     (answering [''results'' \<mapsto> JList [JDict [(''object'', JStr ''page'')],
                                        JDict [(''object'', JStr ''database'')]],
                 ''next_cursor'' \<mapsto> JStr ''c2'', ''has_more'' \<mapsto> JBool True])
     Search [''query'' \<mapsto> JStr ''plan''] (0::nat) =
   (Inr (Listing [Instance Page Page, Instance Database Database] (JStr ''c2'') (JBool True)), 0)"
proof -
  let ?r = "[''results'' \<mapsto> JList [JDict [(''object'', JStr ''page'')],
                                     JDict [(''object'', JStr ''database'')]],
             ''next_cursor'' \<mapsto> JStr ''c2'', ''has_more'' \<mapsto> JBool True]"
  let ?v = "Listing [Instance Page Page, Instance Database Database] (JStr ''c2'') (JBool True)"
  note T = Search_request_and_decode [of Map.empty "parse_obj_spec by_object accepting"
      "answering ?r" "[''query'' \<mapsto> JStr ''plan'']" "0::nat" ?r "0::nat" by_object accepting ?v]
  have d: "parse_obj_spec by_object accepting (PaginatedList (UnionOf Page Database)) ?r = Inr ?v"
    by (simp add: by_object_def accepting_def dict_get_def)
  have i: "invoke Map.empty (parse_obj_spec by_object accepting) (answering ?r) Search
             [''query'' \<mapsto> JStr ''plan''] (0::nat) =
           (parse_obj_spec by_object accepting (PaginatedList (UnionOf Page Database)) ?r, 0)"
    using T by (simp add: answering_def)
  show ?thesis using T i d by simp
qed

section \<open>The auth argument\<close>

text \<open>
  C9. \<^verbatim>\<open>BlocksChildrenAsyncEndpoint.append\<close> passes no auth argument to the client,
  also when kwargs has the key auth; every other method passes
  \<^verbatim>\<open>kwargs.get("auth", None)\<close>.
\<close>

theorem auth_forwarding:
  "\<exists>req. requests_of BM P c call kwargs w = [req]
     \<and> auth req =
        (case call of
           Blocks_children_append block_id \<Rightarrow> None
         | _ \<Rightarrow> Some (case kwargs ''auth'' of None \<Rightarrow> JNull | Some v \<Rightarrow> v))"
  by (cases call) (simp_all add: requests_of_def endpoint_defs log_await_then dict_get_def)

theorem auth_forwarding_witness:
  "(\<exists>req. requests_of Map.empty accepting (answering Map.empty)
           (Blocks_children_append ''b1'') [''auth'' \<mapsto> JStr ''secret''] (0::nat) = [req]
         \<and> auth req = None)
   \<and> (\<exists>req. requests_of Map.empty accepting (answering Map.empty)
           (Blocks_children_list ''b1'') [''auth'' \<mapsto> JStr ''secret''] (0::nat) = [req]
         \<and> auth req = Some (JStr ''secret''))"
  using
    auth_forwarding [of Map.empty accepting "answering Map.empty"
      "Blocks_children_append ''b1''" "[''auth'' \<mapsto> JStr ''secret'']" "0::nat"]
    auth_forwarding [of Map.empty accepting "answering Map.empty"
      "Blocks_children_list ''b1''" "[''auth'' \<mapsto> JStr ''secret'']" "0::nat"]
  by simp

section \<open>The request of \<^verbatim>\<open>Databases.create\<close>\<close>

text \<open>
  C10. For every kwargs, \<^verbatim>\<open>DatabasesAsyncEndpoint.create\<close> makes one request: a POST to
  \<^verbatim>\<open>/databases\<close> with no body, whose query is kwargs restricted to the key
  start_cursor. A field of kwargs other than start_cursor and auth (parent, title,
  properties) changes nothing of the call: it is not sent.
\<close>

theorem Databases_create_request:
  "requests_of BM P c Databases_create kwargs w =
     [\<lparr>path = ''/databases'',
       method = ''POST'',
       query = Some (kwargs |` {''start_cursor''}),
       body = None,
       auth = Some (dict_get kwargs ''auth'')\<rparr>]
   \<and> (k \<noteq> ''start_cursor'' \<and> k \<noteq> ''auth'' \<longrightarrow>
        requests_of BM P c Databases_create (kwargs(k \<mapsto> v)) w =
          requests_of BM P c Databases_create kwargs w
        \<and> invoke BM P c Databases_create (kwargs(k \<mapsto> v)) w =
          invoke BM P c Databases_create kwargs w)"
  by (simp add: requests_of_def endpoint_defs log_await_then pick_restrict dict_get_upd_other)

theorem Databases_create_request_witness:
  "requests_of Map.empty accepting (answering Map.empty) Databases_create
      [''start_cursor'' \<mapsto> JStr ''c1'', ''title'' \<mapsto> JStr ''Tasks''] (0::nat) =
     [\<lparr>path = ''/databases'', method = ''POST'',
       query = Some ([''start_cursor'' \<mapsto> JStr ''c1'']),
       body = None, auth = Some JNull\<rparr>]
   \<and> invoke Map.empty accepting (answering Map.empty) Databases_create
        [''start_cursor'' \<mapsto> JStr ''c1'', ''title'' \<mapsto> JStr ''Tasks''] (0::nat) =
      invoke Map.empty accepting (answering Map.empty) Databases_create
        [''start_cursor'' \<mapsto> JStr ''c1''] (0::nat)"
  using
    Databases_create_request [of Map.empty accepting "answering Map.empty"
      "[''start_cursor'' \<mapsto> JStr ''c1'']" "0::nat" "''title''" "JStr ''Tasks''"]
  by (simp add: dict_get_def)

end
